theory Spec2Isabelle
  imports Main "HOL-Library.Sublist"
begin

section \<open>JavaScript values\<close>

text \<open>
  The widget reads two kinds of untyped data: the \<open>options\<close> object handed to the
  constructor and the bodies that \<open>response.json()\<close> parses. Both are modelled by the
  JSON-shaped values below. An object is the list of its own properties (the first
  binding of a name is the property's value). Numbers are the integers whose decimal text
  is what JavaScript prints for them (the safe integers); fractions, \<open>NaN\<close> and
  callable values are outside the model.
\<close>

datatype jsval =
    JUndefined
  | JNull
  | JBool bool
  | JNum int
  | JStr string
  | JArr "jsval list"
  | JObj "(string \<times> jsval) list"

text \<open>
  What a \<open>catch\<close> clause receives: a \<open>TypeError\<close> of the engine, the
  \<open>SyntaxError\<close> of a body that does not parse, the rejection of a \<open>fetch\<close>, or an
  \<open>Error\<close> the code throws itself. \<open>error.message\<close> is the text it carries; for the
  engine's own errors the wording is V8's.
\<close>

datatype js_exn =
    TypeError string
  | SyntaxError string
  | NetworkError string
  | PlainError string

fun exn_message :: "js_exn \<Rightarrow> string" where
  "exn_message (TypeError m) = m"
| "exn_message (SyntaxError m) = m"
| "exn_message (NetworkError m) = m"
| "exn_message (PlainError m) = m"

text \<open>The values that count as false in \<open>!v\<close>, \<open>a || b\<close>, \<open>a && b\<close> and \<open>c ? x : y\<close>.\<close>

fun truthy :: "jsval \<Rightarrow> bool" where
  "truthy JUndefined = False"
| "truthy JNull = False"
| "truthy (JBool b) = b"
| "truthy (JNum n) = (n \<noteq> 0)"
| "truthy (JStr s) = (s \<noteq> [])"
| "truthy (JArr xs) = True"
| "truthy (JObj kvs) = True"

definition js_or :: "jsval \<Rightarrow> jsval \<Rightarrow> jsval" where
  "js_or a b = (if truthy a then a else b)"

text \<open>
  \<open>v.name\<close> for the property names the widget reads (\<open>apiBase\<close>,
  \<open>webSearchEnabled\<close>, \<open>response\<close>, \<open>sources\<close>, \<open>detail\<close>, \<open>status\<close>,
  \<open>type\<close>, \<open>url\<close>, \<open>title\<close>, \<open>source\<close>): reading a property of \<open>null\<close> or
  \<open>undefined\<close> throws, an object gives its property or \<open>undefined\<close>, and no other
  value has a property of one of these names.
\<close>

definition quoted :: "string \<Rightarrow> string" where
  "quoted s = CHR 0x27 # s @ [CHR 0x27]"

fun get_field :: "string \<Rightarrow> jsval \<Rightarrow> js_exn + jsval" where
  "get_field name JUndefined =
     Inl (TypeError (''Cannot read properties of undefined (reading '' @ quoted name @ '')''))"
| "get_field name JNull =
     Inl (TypeError (''Cannot read properties of null (reading '' @ quoted name @ '')''))"
| "get_field name (JObj kvs) =
     Inr (case map_of kvs name of None \<Rightarrow> JUndefined | Some v \<Rightarrow> v)"
| "get_field name v = Inr JUndefined"

subsection \<open>Conversion to text in a template literal\<close>

definition digit_char :: "nat \<Rightarrow> char" where
  "digit_char d = ''0123456789'' ! d"

fun string_of_nat :: "nat \<Rightarrow> string" where
  "string_of_nat n =
     (if n < 10 then [digit_char n]
      else string_of_nat (n div 10) @ [digit_char (n mod 10)])"

definition string_of_int :: "int \<Rightarrow> string" where
  "string_of_int i =
     (if i < 0 then CHR ''-'' # string_of_nat (nat (- i)) else string_of_nat (nat i))"

text \<open>
  \<open>`${v}`\<close>: a primitive prints as itself, an array joins its elements with commas
  (\<open>null\<close> and \<open>undefined\<close> elements print as nothing), an object prints as
  \<open>[object Object]\<close> unless a property named \<open>toString\<close> hides the inherited method;
  that property is not callable, and neither is a \<open>valueOf\<close> that could stand in for
  it, so the conversion throws.
\<close>

fun js_to_string :: "jsval \<Rightarrow> js_exn + string"
  and join_elems :: "jsval list \<Rightarrow> js_exn + string" where
  "js_to_string JUndefined = Inr ''undefined''"
| "js_to_string JNull = Inr ''null''"
| "js_to_string (JBool b) = Inr (if b then ''true'' else ''false'')"
| "js_to_string (JNum n) = Inr (string_of_int n)"
| "js_to_string (JStr s) = Inr s"
| "js_to_string (JArr xs) = join_elems xs"
| "js_to_string (JObj kvs) =
     (if map_of kvs ''toString'' = None then Inr ''[object Object]''
      else Inl (TypeError ''Cannot convert object to primitive value''))"
| "join_elems [] = Inr []"
| "join_elems (x # xs) =
     (case (if x = JUndefined \<or> x = JNull then Inr [] else js_to_string x) of
        Inl e \<Rightarrow> Inl e
      | Inr s \<Rightarrow>
          (if xs = [] then Inr s
           else (case join_elems xs of Inl e \<Rightarrow> Inl e | Inr t \<Rightarrow> Inr (s @ '','' @ t))))"

subsection \<open>\<open>String.prototype.trim\<close>\<close>

text \<open>
  Characters are the code units below 256; the white space among them is tab, line feed,
  vertical tab, form feed, carriage return, space and the no-break space.
\<close>

definition is_space :: "char \<Rightarrow> bool" where
  "is_space c =
     (c \<in> set [CHR 0x09, CHR 0x0A, CHR 0x0B, CHR 0x0C, CHR 0x0D, CHR 0x20, CHR 0xA0])"

definition trim :: "string \<Rightarrow> string" where
  "trim s = rev (dropWhile is_space (rev (dropWhile is_space s)))"

section \<open>The network\<close>

text \<open>
  A \<open>fetch\<close> followed by \<open>response.json()\<close> settles in one of three ways: \<open>fetch\<close>
  rejects, the body does not parse, or a status code arrives with a parsed body.
  \<open>response.ok\<close> is true for the status codes 200 to 299.
\<close>

datatype body = Unparsable string | Json jsval

datatype fetch_result = FetchRejected string | Response nat body

definition ok :: "nat \<Rightarrow> bool" where
  "ok status = (200 \<le> status \<and> status \<le> 299)"

record chat_body =
  message :: string
  web_search_enabled :: bool
  session_id :: string

datatype request = HealthGet string | ChatPost string chat_body

section \<open>CAChatbotWidget (ca-chatbot-widget.js)\<close>

subsection \<open>State\<close>

text \<open>
  One entry of a Sources block: a link (\<open>href\<close>, text) or a plain label. A message is
  one child of \<open>#ca-chat-messages\<close>: its class (\<open>user\<close> or \<open>bot\<close>), the text put into
  the bubble and the Sources block under it.
\<close>

datatype source_item = SourceLink string string | SourceLabel string

datatype sources_block = NoSources | SourcesBlock "source_item list"

record message =
  is_user :: bool
  content :: string
  sources_html :: sources_block

text \<open>
  The widget object's fields, the parts of its markup that its methods read or write,
  and the log of the requests it has issued. Scroll positions, the text area's height and
  the input focus are left out.
\<close>

record widget =
  apiBase :: jsval
  webSearchEnabled :: bool
  sessionId :: string
  isOpen :: bool
  isLoading :: bool
  interface_open :: bool
  web_toggle_active :: bool
  web_search_status :: string
  input_value :: string
  send_disabled :: bool
  typing_display :: string
  connection_text :: string
  connection_class :: string
  messages :: "message list"
  requests :: "request list"

subsection \<open>Visibility and toggles\<close>

definition openChat :: "widget \<Rightarrow> widget" where
  "openChat w = w\<lparr>isOpen := True, interface_open := True\<rparr>"

definition closeChat :: "widget \<Rightarrow> widget" where
  "closeChat w = w\<lparr>isOpen := False, interface_open := False\<rparr>"

definition toggleChat :: "widget \<Rightarrow> widget" where
  "toggleChat w = (if isOpen w then closeChat w else openChat w)"

definition toggleWebSearch :: "widget \<Rightarrow> widget" where
  "toggleWebSearch w =
     (let w1 = w\<lparr>webSearchEnabled := \<not> webSearchEnabled w\<rparr>
      in if webSearchEnabled w1
         then w1\<lparr>web_toggle_active := True, web_search_status := ''Web Search: ON''\<rparr>
         else w1\<lparr>web_toggle_active := False, web_search_status := ''Web Search: OFF''\<rparr>)"

definition updateSendButton :: "widget \<Rightarrow> widget" where
  "updateSendButton w = w\<lparr>send_disabled := (trim (input_value w) = [] \<or> isLoading w)\<rparr>"

subsection \<open>The health probe\<close>

definition set_offline :: "widget \<Rightarrow> widget" where
  "set_offline w = w\<lparr>connection_text := ''Offline'', connection_class := ''ca-status-offline''\<rparr>"

definition set_online :: "widget \<Rightarrow> widget" where
  "set_online w = w\<lparr>connection_text := ''Online'', connection_class := ''ca-status-online''\<rparr>"

text \<open>
  \<open>checkAPIHealth\<close> up to its first \<open>await\<close>: the request goes out. Building the URL
  is inside the \<open>try\<close>, so an \<open>apiBase\<close> that cannot be printed ends in the
  \<open>catch\<close> clause with no request.
\<close>

definition checkAPIHealth_begin :: "widget \<Rightarrow> widget" where
  "checkAPIHealth_begin w =
     (case js_to_string (apiBase w) of
        Inl e \<Rightarrow> set_offline w
      | Inr base \<Rightarrow> w\<lparr>requests := requests w @ [HealthGet (base @ ''/health'')]\<rparr>)"

text \<open>The body of the \<open>try\<close> once both awaits have settled: does it reach \<open>Online\<close>?\<close>

definition health_try :: "fetch_result \<Rightarrow> js_exn + unit" where
  "health_try r =
     (case r of
        FetchRejected m \<Rightarrow> Inl (NetworkError m)
      | Response status b \<Rightarrow>
          (case b of
             Unparsable m \<Rightarrow> Inl (SyntaxError m)
           | Json data \<Rightarrow>
               if ok status
               then (case get_field ''status'' data of
                       Inl e \<Rightarrow> Inl e
                     | Inr s \<Rightarrow>
                         if s = JStr ''healthy'' then Inr ()
                         else Inl (PlainError ''API unhealthy''))
               else Inl (PlainError ''API unhealthy'')))"

definition checkAPIHealth_settle :: "fetch_result \<Rightarrow> widget \<Rightarrow> widget" where
  "checkAPIHealth_settle r w =
     (case health_try r of Inl e \<Rightarrow> set_offline w | Inr u \<Rightarrow> set_online w)"

subsection \<open>Rendering messages\<close>

text \<open>
  The callback that \<open>createSourcesHTML\<close> maps over the sources: a link when the type
  is \<open>web\<close> and the url is truthy, a label otherwise.
\<close>

definition source_label :: "jsval \<Rightarrow> js_exn + source_item" where
  "source_label source =
     (case get_field ''source'' source of
        Inl e \<Rightarrow> Inl e
      | Inr s \<Rightarrow>
          (case js_to_string (js_or s (JStr ''Document'')) of
             Inl e \<Rightarrow> Inl e
           | Inr txt \<Rightarrow> Inr (SourceLabel txt)))"

definition source_link :: "jsval \<Rightarrow> jsval \<Rightarrow> js_exn + source_item" where
  "source_link source u =
     (case js_to_string u of
        Inl e \<Rightarrow> Inl e
      | Inr href \<Rightarrow>
          (case get_field ''title'' source of
             Inl e \<Rightarrow> Inl e
           | Inr ti \<Rightarrow>
               (case js_to_string ti of
                  Inl e \<Rightarrow> Inl e
                | Inr txt \<Rightarrow> Inr (SourceLink href txt))))"

definition render_source :: "jsval \<Rightarrow> js_exn + source_item" where
  "render_source source =
     (case get_field ''type'' source of
        Inl e \<Rightarrow> Inl e
      | Inr t \<Rightarrow>
          if t = JStr ''web''
          then (case get_field ''url'' source of
                  Inl e \<Rightarrow> Inl e
                | Inr u \<Rightarrow> if truthy u then source_link source u else source_label source)
          else source_label source)"

text \<open>\<open>Array.prototype.map\<close> with that callback: the first throw ends it.\<close>

fun map_sources :: "jsval list \<Rightarrow> js_exn + source_item list" where
  "map_sources [] = Inr []"
| "map_sources (s # ss) =
     (case render_source s of
        Inl e \<Rightarrow> Inl e
      | Inr i \<Rightarrow> (case map_sources ss of Inl e \<Rightarrow> Inl e | Inr is \<Rightarrow> Inr (i # is)))"

text \<open>
  \<open>createSourcesHTML\<close>. Only an array has a \<open>slice\<close> whose result has a \<open>map\<close>: a
  non-empty string slices to a string, and a number, \<open>true\<close> or an object has no
  \<open>slice\<close> to call. An object whose \<open>length\<close> property is 0 leaves before that.
\<close>

definition createSourcesHTML :: "jsval \<Rightarrow> js_exn + sources_block" where
  "createSourcesHTML sources =
     (if \<not> truthy sources then Inr NoSources
      else case sources of
          JArr xs \<Rightarrow>
            if length xs = 0 then Inr NoSources
            else (case map_sources (take 3 xs) of
                    Inl e \<Rightarrow> Inl e
                  | Inr items \<Rightarrow> Inr (SourcesBlock items))
        | JObj kvs \<Rightarrow>
            if map_of kvs ''length'' = Some (JNum 0) then Inr NoSources
            else Inl (TypeError ''sources.slice is not a function'')
        | JStr s \<Rightarrow> Inl (TypeError ''sources.slice(...).map is not a function'')
        | _ \<Rightarrow> Inl (TypeError ''sources.slice is not a function''))"

text \<open>
  \<open>addMessage(content, isUser, sources)\<close>: the markup is built first (printing the
  content, then the sources when they are truthy), and only then is the new node appended
  as the last child of the container. A throw while building appends nothing.
\<close>

definition addMessage :: "jsval \<Rightarrow> bool \<Rightarrow> jsval \<Rightarrow> widget \<Rightarrow> js_exn + widget" where
  "addMessage c isUser sources w =
     (case js_to_string c of
        Inl e \<Rightarrow> Inl e
      | Inr txt \<Rightarrow>
          (case (if truthy sources then createSourcesHTML sources else Inr NoSources) of
             Inl e \<Rightarrow> Inl e
           | Inr blk \<Rightarrow>
               Inr (w\<lparr>messages := messages w @
                      [\<lparr>is_user = isUser, content = txt, sources_html = blk\<rparr>]\<rparr>)))"

definition showTyping :: "widget \<Rightarrow> widget" where
  "showTyping w = w\<lparr>typing_display := ''flex''\<rparr>"

definition hideTyping :: "widget \<Rightarrow> widget" where
  "hideTyping w = w\<lparr>typing_display := ''none''\<rparr>"

subsection \<open>Sending a message\<close>

text \<open>
  \<open>sendMessage\<close> runs in two parts. The first runs when the user sends: the guard, the
  user's message, the loading state and the \<open>fetch\<close>. The second runs when the request
  has settled: the body of the \<open>try\<close> after the awaits, the \<open>catch\<close> clause and the
  \<open>finally\<close> block.
\<close>

definition admitted :: "widget \<Rightarrow> bool" where
  "admitted w = (trim (input_value w) \<noteq> [] \<and> \<not> isLoading w)"

definition chat_request :: "string \<Rightarrow> widget \<Rightarrow> js_exn + request" where
  "chat_request msg w =
     (case js_to_string (apiBase w) of
        Inl e \<Rightarrow> Inl e
      | Inr base \<Rightarrow>
          Inr (ChatPost (base @ ''/api/chat'')
                 \<lparr>message = msg, web_search_enabled = webSearchEnabled w,
                  session_id = sessionId w\<rparr>))"

definition offline_notice :: "js_exn \<Rightarrow> string" where
  "offline_notice e =
     ''I'' @ [CHR 0x27] @ ''m currently offline. Please try again later. ('' @ exn_message e @ '')''"

definition error_notice :: "string \<Rightarrow> string" where
  "error_notice detail = ''Sorry, I encountered an error: '' @ detail"

text \<open>A throw out of an \<open>addMessage\<close> call outside any \<open>try\<close> leaves the state as it was.\<close>

definition sendMessage_catch :: "js_exn \<Rightarrow> widget \<Rightarrow> widget" where
  "sendMessage_catch e w =
     (case addMessage (JStr (offline_notice e)) False JNull w of
        Inl e2 \<Rightarrow> w
      | Inr w2 \<Rightarrow> w2)"

definition sendMessage_finally :: "widget \<Rightarrow> widget" where
  "sendMessage_finally w = updateSendButton (hideTyping (w\<lparr>isLoading := False\<rparr>))"

definition sendMessage_begin :: "widget \<Rightarrow> widget" where
  "sendMessage_begin w =
     (let msg = trim (input_value w) in
      if msg = [] \<or> isLoading w then w
      else
        (case addMessage (JStr msg) True JNull w of
           Inl e \<Rightarrow> w
         | Inr w1 \<Rightarrow>
             (let w2 = updateSendButton (w1\<lparr>input_value := []\<rparr>);
                  w3 = showTyping (w2\<lparr>isLoading := True\<rparr>)
              in case chat_request msg w3 of
                   Inl e \<Rightarrow> sendMessage_finally (sendMessage_catch e w3)
                 | Inr rq \<Rightarrow> w3\<lparr>requests := requests w3 @ [rq]\<rparr>)))"

definition sendMessage_try :: "fetch_result \<Rightarrow> widget \<Rightarrow> js_exn + widget" where
  "sendMessage_try r w =
     (case r of
        FetchRejected m \<Rightarrow> Inl (NetworkError m)
      | Response status b \<Rightarrow>
          (case b of
             Unparsable m \<Rightarrow> Inl (SyntaxError m)
           | Json data \<Rightarrow>
               if ok status
               then (case get_field ''response'' data of
                       Inl e \<Rightarrow> Inl e
                     | Inr resp \<Rightarrow>
                         (case get_field ''sources'' data of
                            Inl e \<Rightarrow> Inl e
                          | Inr srcs \<Rightarrow>
                              (case addMessage resp False srcs w of
                                 Inl e \<Rightarrow> Inl e
                               | Inr w1 \<Rightarrow> Inr (checkAPIHealth_begin w1))))
               else (case get_field ''detail'' data of
                       Inl e \<Rightarrow> Inl e
                     | Inr d \<Rightarrow>
                         (case js_to_string (js_or d (JStr ''Unknown error'')) of
                            Inl e \<Rightarrow> Inl e
                          | Inr txt \<Rightarrow> addMessage (JStr (error_notice txt)) False JNull w))))"

definition sendMessage_settle :: "fetch_result \<Rightarrow> widget \<Rightarrow> widget" where
  "sendMessage_settle r w =
     sendMessage_finally
       (case sendMessage_try r w of Inl e \<Rightarrow> sendMessage_catch e w | Inr w1 \<Rightarrow> w1)"

text \<open>
  Whether the first part leaves a request in flight, and a whole send whose request
  settles with \<open>r\<close> before anything else happens.
\<close>

definition awaiting :: "widget \<Rightarrow> bool" where
  "awaiting w = (admitted w \<and> (case js_to_string (apiBase w) of Inl e \<Rightarrow> False | Inr b \<Rightarrow> True))"

definition sendMessage :: "fetch_result \<Rightarrow> widget \<Rightarrow> widget" where
  "sendMessage r w =
     (if awaiting w then sendMessage_settle r (sendMessage_begin w) else sendMessage_begin w)"

subsection \<open>Construction\<close>

text \<open>
  \<open>generateSessionId\<close> reads the clock and the random source; the model takes
  \<open>Date.now()\<close> and the base-36 text of \<open>Math.random()\<close> as arguments.
\<close>

definition generateSessionId :: "nat \<Rightarrow> string \<Rightarrow> string" where
  "generateSessionId now rnd = ''session_'' @ string_of_nat now @ ''_'' @ take 9 (drop 2 rnd)"

definition greeting :: message where
  "greeting =
     \<lparr>is_user = False,
      content = ''Hello! I'' @ [CHR 0x27] @ ''m your CA Assistant, specialized in Indian tax laws, GST compliance, and accounting regulations. How can I help you today?'',
      sources_html = NoSources\<rparr>"

text \<open>\<open>createWidget\<close>: the markup as the template writes it.\<close>

definition createWidget :: "jsval \<Rightarrow> bool \<Rightarrow> string \<Rightarrow> widget" where
  "createWidget base ws sid =
     \<lparr>apiBase = base, webSearchEnabled = ws, sessionId = sid,
      isOpen = False, isLoading = False,
      interface_open = False, web_toggle_active = False,
      web_search_status = ''Web Search: '' @ (if ws then ''ON'' else ''OFF''),
      input_value = [], send_disabled = True, typing_display = ''none'',
      connection_text = ''Connecting...'', connection_class = ''ca-status-offline'',
      messages = [greeting], requests = []\<rparr>"

text \<open>
  \<open>new CAChatbotWidget(options)\<close>; an \<open>undefined\<close> argument takes the default
  \<open>{}\<close>. \<open>init\<close> builds the markup, wires the listeners (the \<open>step\<close> function
  below) and starts the first health probe.
\<close>

definition default_apiBase :: string where
  "default_apiBase = ''https://ca-chatbot-ld8v.onrender.com''"

definition new_widget :: "jsval \<Rightarrow> nat \<Rightarrow> string \<Rightarrow> js_exn + widget" where
  "new_widget options now rnd =
     (let opts = (if options = JUndefined then JObj [] else options) in
      case get_field ''apiBase'' opts of
        Inl e \<Rightarrow> Inl e
      | Inr a \<Rightarrow>
          (case get_field ''webSearchEnabled'' opts of
             Inl e \<Rightarrow> Inl e
           | Inr ws \<Rightarrow>
               Inr (checkAPIHealth_begin
                      (createWidget (js_or a (JStr default_apiBase)) (ws \<noteq> JBool False)
                         (generateSessionId now rnd)))))"

subsection \<open>Events\<close>

text \<open>
  The listeners of \<open>attachEventListeners\<close> and the two completions. A key pressed in
  the text field reaches the field's listener and then the document's; a key pressed
  elsewhere reaches the document's only.
\<close>

datatype event =
    ClickToggle
  | ClickClose
  | ClickWebSearch
  | ClickSend
  | Input string
  | FieldKeyDown string bool
  | DocKeyDown string
  | ChatSettled fetch_result
  | HealthSettled fetch_result

definition on_escape :: "string \<Rightarrow> widget \<Rightarrow> widget" where
  "on_escape k w = (if k = ''Escape'' \<and> isOpen w then closeChat w else w)"

fun step :: "event \<Rightarrow> widget \<Rightarrow> widget" where
  "step ClickToggle w = toggleChat w"
| "step ClickClose w = closeChat w"
| "step ClickWebSearch w = toggleWebSearch w"
| "step ClickSend w = sendMessage_begin w"
| "step (Input s) w = updateSendButton (w\<lparr>input_value := s\<rparr>)"
| "step (FieldKeyDown k shift) w =
     on_escape k (if k = ''Enter'' \<and> \<not> shift then sendMessage_begin w else w)"
| "step (DocKeyDown k) w = on_escape k w"
| "step (ChatSettled r) w = sendMessage_settle r w"
| "step (HealthSettled r) w = checkAPIHealth_settle r w"


section \<open>CAEmbedWidget (the embed script)\<close>

text \<open>
  The one-file embed script has its own, smaller widget: no health probe, no sources, a
  fixed \<open>CONFIG\<close>, and a \<open>Thinking...\<close> bubble in place of the typing indicator. A
  bubble is one child of \<open>#ca-embed-messages\<close>.
\<close>

record bubble =
  from_user :: bool
  bubble_text :: string

record embed =
  embed_isOpen :: bool
  embed_isLoading :: bool
  embed_sessionId :: string
  embed_interface_open :: bool
  embed_textarea :: string
  embed_send_disabled :: bool
  embed_messages :: "bubble list"
  embed_requests :: "request list"

definition CONFIG_apiBase :: string where
  "CONFIG_apiBase = ''https://ca-chatbot-ld8v.onrender.com''"

definition CONFIG_webSearchEnabled :: bool where
  "CONFIG_webSearchEnabled = True"

definition embed_open :: "embed \<Rightarrow> embed" where
  "embed_open w = w\<lparr>embed_isOpen := True, embed_interface_open := True\<rparr>"

definition embed_close :: "embed \<Rightarrow> embed" where
  "embed_close w = w\<lparr>embed_isOpen := False, embed_interface_open := False\<rparr>"

definition embed_toggle :: "embed \<Rightarrow> embed" where
  "embed_toggle w = (if embed_isOpen w then embed_close w else embed_open w)"

definition embed_updateSendButton :: "embed \<Rightarrow> embed" where
  "embed_updateSendButton w =
     w\<lparr>embed_send_disabled := (trim (embed_textarea w) = [] \<or> embed_isLoading w)\<rparr>"

definition embed_addMessage :: "jsval \<Rightarrow> bool \<Rightarrow> embed \<Rightarrow> js_exn + embed" where
  "embed_addMessage c isUser w =
     (case js_to_string c of
        Inl e \<Rightarrow> Inl e
      | Inr txt \<Rightarrow>
          Inr (w\<lparr>embed_messages := embed_messages w @
                 [\<lparr>from_user = isUser, bubble_text = txt\<rparr>]\<rparr>))"

text \<open>
  \<open>messages.removeChild(messages.lastElementChild)\<close>: the last child goes, whatever it
  is; with no child the argument is \<open>null\<close> and the call throws.
\<close>

definition embed_removeLast :: "embed \<Rightarrow> js_exn + embed" where
  "embed_removeLast w =
     (if embed_messages w = []
      then Inl (TypeError (''Failed to execute '' @ quoted ''removeChild'' @ '' on ''
                             @ quoted ''Node'' @ '': parameter 1 is not of type ''
                             @ quoted ''Node'' @ ''.''))
      else Inr (w\<lparr>embed_messages := butlast (embed_messages w)\<rparr>))"

definition embed_chat_request :: "string \<Rightarrow> embed \<Rightarrow> request" where
  "embed_chat_request msg w =
     ChatPost (CONFIG_apiBase @ ''/api/chat'')
       \<lparr>message = msg, web_search_enabled = CONFIG_webSearchEnabled,
        session_id = embed_sessionId w\<rparr>"

definition embed_sendMessage_begin :: "embed \<Rightarrow> embed" where
  "embed_sendMessage_begin w =
     (let msg = trim (embed_textarea w) in
      if msg = [] \<or> embed_isLoading w then w
      else
        (case embed_addMessage (JStr msg) True w of
           Inl e \<Rightarrow> w
         | Inr w1 \<Rightarrow>
             (let w2 = embed_updateSendButton (w1\<lparr>embed_textarea := []\<rparr>);
                  w3 = w2\<lparr>embed_isLoading := True\<rparr>
              in case embed_addMessage (JStr ''Thinking...'') False w3 of
                   Inl e \<Rightarrow> w3
                 | Inr w4 \<Rightarrow>
                     w4\<lparr>embed_requests := embed_requests w4 @ [embed_chat_request msg w4]\<rparr>)))"

text \<open>
  The body of the \<open>try\<close> after the awaits. It changes the container before it can
  throw, so a throw comes with the state reached.
\<close>

definition embed_try :: "fetch_result \<Rightarrow> embed \<Rightarrow> (js_exn \<times> embed) + embed" where
  "embed_try r w =
     (case r of
        FetchRejected m \<Rightarrow> Inl (NetworkError m, w)
      | Response status b \<Rightarrow>
          (case b of
             Unparsable m \<Rightarrow> Inl (SyntaxError m, w)
           | Json data \<Rightarrow>
               (case embed_removeLast w of
                  Inl e \<Rightarrow> Inl (e, w)
                | Inr w1 \<Rightarrow>
                    if ok status
                    then (case get_field ''response'' data of
                            Inl e \<Rightarrow> Inl (e, w1)
                          | Inr resp \<Rightarrow>
                              (case embed_addMessage resp False w1 of
                                 Inl e \<Rightarrow> Inl (e, w1)
                               | Inr w2 \<Rightarrow> Inr w2))
                    else (case embed_addMessage
                                 (JStr ''Sorry, I encountered an error. Please try again.'')
                                 False w1 of
                            Inl e \<Rightarrow> Inl (e, w1)
                          | Inr w2 \<Rightarrow> Inr w2))))"

definition embed_offline_text :: string where
  "embed_offline_text = ''I'' @ [CHR 0x27] @ ''m currently offline. Please try again later.''"

text \<open>The \<open>catch\<close> clause; a throw inside it leaves the state it had reached.\<close>

definition embed_catch :: "embed \<Rightarrow> embed" where
  "embed_catch w =
     (case embed_removeLast w of
        Inl e \<Rightarrow> w
      | Inr w1 \<Rightarrow>
          (case embed_addMessage (JStr embed_offline_text) False w1 of
             Inl e \<Rightarrow> w1
           | Inr w2 \<Rightarrow> w2))"

definition embed_finally :: "embed \<Rightarrow> embed" where
  "embed_finally w = embed_updateSendButton (w\<lparr>embed_isLoading := False\<rparr>)"

definition embed_sendMessage_settle :: "fetch_result \<Rightarrow> embed \<Rightarrow> embed" where
  "embed_sendMessage_settle r w =
     embed_finally
       (case embed_try r w of Inl (e, w1) \<Rightarrow> embed_catch w1 | Inr w2 \<Rightarrow> w2)"

definition embed_admitted :: "embed \<Rightarrow> bool" where
  "embed_admitted w = (trim (embed_textarea w) \<noteq> [] \<and> \<not> embed_isLoading w)"

text \<open>A whole send whose request settles with \<open>r\<close> before anything else happens.\<close>

definition embed_sendMessage :: "fetch_result \<Rightarrow> embed \<Rightarrow> embed" where
  "embed_sendMessage r w =
     (if embed_admitted w then embed_sendMessage_settle r (embed_sendMessage_begin w)
      else embed_sendMessage_begin w)"

definition embed_greeting :: bubble where
  "embed_greeting =
     \<lparr>from_user = False,
      bubble_text = ''Hello! I'' @ [CHR 0x27] @ ''m your CA Assistant, specialized in Indian tax laws, GST compliance, and accounting regulations. How can I help you today?''\<rparr>"

text \<open>\<open>new CAEmbedWidget()\<close> once \<open>create\<close> has run.\<close>

definition new_embed :: "nat \<Rightarrow> string \<Rightarrow> embed" where
  "new_embed now rnd =
     \<lparr>embed_isOpen = False, embed_isLoading = False,
      embed_sessionId = ''session_'' @ string_of_nat now @ ''_'' @ take 9 (drop 2 rnd),
      embed_interface_open = False, embed_textarea = [], embed_send_disabled = True,
      embed_messages = [embed_greeting], embed_requests = []\<rparr>"

datatype embed_event =
    EClickToggle
  | EClickClose
  | EClickSend
  | EInput string
  | EKeyDown string bool
  | EChatSettled fetch_result

fun embed_step :: "embed_event \<Rightarrow> embed \<Rightarrow> embed" where
  "embed_step EClickToggle w = embed_toggle w"
| "embed_step EClickClose w = embed_close w"
| "embed_step EClickSend w = embed_sendMessage_begin w"
| "embed_step (EInput s) w = embed_updateSendButton (w\<lparr>embed_textarea := s\<rparr>)"
| "embed_step (EKeyDown k shift) w =
     (if k = ''Enter'' \<and> \<not> shift then embed_sendMessage_begin w else w)"
| "embed_step (EChatSettled r) w = embed_sendMessage_settle r w"

section \<open>Vocabulary of the properties\<close>

text \<open>Whether a rendered source is a hyperlink.\<close>

definition is_link :: "source_item \<Rightarrow> bool" where
  "is_link i = (case i of SourceLink h t \<Rightarrow> True | SourceLabel l \<Rightarrow> False)"

text \<open>The two failure notices of \<open>sendMessage\<close> are recognised by how they begin.\<close>

definition is_failure_notice :: "string \<Rightarrow> bool" where
  "is_failure_notice s =
     (prefix ''Sorry, I encountered an error: '' s
      \<or> prefix (''I'' @ [CHR 0x27] @ ''m currently offline. Please try again later. ('') s)"

text \<open>
  A conversation: the user types a text and sends it, and the request settles before the
  next text is typed.
\<close>

fun sends :: "(string \<times> fetch_result) list \<Rightarrow> widget \<Rightarrow> widget" where
  "sends [] w = w"
| "sends ((s, r) # xs) w = sends xs (sendMessage r (step (Input s) w))"


text \<open>User message, assistant message, and so on.\<close>

fun alternating :: "message list \<Rightarrow> bool" where
  "alternating [] = True"
| "alternating [m] = False"
| "alternating (u # a # ms) = (is_user u \<and> \<not> is_user a \<and> alternating ms)"

section \<open>Properties\<close>

subsection \<open>Auxiliary facts\<close>

lemma trim_Nil: "trim [] = []"
  by (simp add: trim_def)

lemma addMessage_text:
  "addMessage (JStr s) b JNull w =
     Inr (w\<lparr>messages := messages w @ [\<lparr>is_user = b, content = s, sources_html = NoSources\<rparr>]\<rparr>)"
  by (simp add: addMessage_def)

lemma frame_addMessage:
  "addMessage c u srcs w = Inr w1 \<Longrightarrow> requests w1 = requests w \<and> apiBase w1 = apiBase w"
  by (auto simp: addMessage_def split: sum.splits)

lemma messages_addMessage:
  "addMessage c u srcs w = Inr w1 \<Longrightarrow> \<exists>m. messages w1 = messages w @ [m] \<and> is_user m = u"
  by (auto simp: addMessage_def split: sum.splits)

lemma sendMessage_catch_eq:
  "sendMessage_catch e w =
     w\<lparr>messages := messages w @
        [\<lparr>is_user = False, content = offline_notice e, sources_html = NoSources\<rparr>]\<rparr>"
  by (simp add: sendMessage_catch_def addMessage_text)

lemma sendMessage_finally_eq:
  "sendMessage_finally w =
     w\<lparr>isLoading := False, typing_display := ''none'',
       send_disabled := (trim (input_value w) = [])\<rparr>"
  by (simp add: sendMessage_finally_def updateSendButton_def hideTyping_def)

lemma requests_health_begin:
  "requests (checkAPIHealth_begin w) =
     (case js_to_string (apiBase w) of
        Inl e \<Rightarrow> requests w
      | Inr base \<Rightarrow> requests w @ [HealthGet (base @ ''/health'')])"
  by (simp add: checkAPIHealth_begin_def set_offline_def split: sum.splits)

lemma messages_health_begin: "messages (checkAPIHealth_begin w) = messages w"
  by (simp add: checkAPIHealth_begin_def set_offline_def split: sum.splits)

lemma webSearchEnabled_health_begin:
  "webSearchEnabled (checkAPIHealth_begin w) = webSearchEnabled w"
  by (simp add: checkAPIHealth_begin_def set_offline_def split: sum.splits)

lemma sendMessage_begin_admitted:
  assumes "admitted w"
  shows "sendMessage_begin w =
    (let w3 = w\<lparr>messages := messages w @
                  [\<lparr>is_user = True, content = trim (input_value w), sources_html = NoSources\<rparr>],
                input_value := [], send_disabled := True, isLoading := True,
                typing_display := ''flex''\<rparr>
     in case js_to_string (apiBase w) of
          Inl e \<Rightarrow> sendMessage_finally (sendMessage_catch e w3)
        | Inr base \<Rightarrow>
            w3\<lparr>requests := requests w @
                 [ChatPost (base @ ''/api/chat'')
                    \<lparr>message = trim (input_value w), web_search_enabled = webSearchEnabled w,
                     session_id = sessionId w\<rparr>]\<rparr>)"
  using assms
  by (simp add: sendMessage_begin_def admitted_def addMessage_text Let_def updateSendButton_def
      showTyping_def chat_request_def trim_Nil split: sum.splits)

lemma sendMessage_begin_rejected: "\<not> admitted w \<Longrightarrow> sendMessage_begin w = w"
  by (auto simp: sendMessage_begin_def admitted_def Let_def)

lemma messages_begin:
  "messages (sendMessage_begin w) =
     (if admitted w
      then messages w
           @ [\<lparr>is_user = True, content = trim (input_value w), sources_html = NoSources\<rparr>]
           @ (case js_to_string (apiBase w) of
                Inl e \<Rightarrow>
                  [\<lparr>is_user = False, content = offline_notice e, sources_html = NoSources\<rparr>]
              | Inr b \<Rightarrow> [])
      else messages w)"
  by (cases "admitted w")
     (simp_all add: sendMessage_begin_admitted sendMessage_begin_rejected Let_def
        sendMessage_finally_eq sendMessage_catch_eq split: sum.splits)

lemma isLoading_settle: "isLoading (sendMessage_settle r w) = False"
  by (simp add: sendMessage_settle_def sendMessage_finally_eq)

lemma isLoading_sendMessage: "admitted w \<Longrightarrow> isLoading (sendMessage r w) = False"
  by (simp add: sendMessage_def isLoading_settle awaiting_def sendMessage_begin_admitted
      sendMessage_finally_eq Let_def split: sum.splits)

lemma messages_try:
  "sendMessage_try r w = Inr w1 \<Longrightarrow> \<exists>m. messages w1 = messages w @ [m] \<and> \<not> is_user m"
  by (auto simp: sendMessage_try_def messages_health_begin
      split: fetch_result.splits body.splits sum.splits if_splits dest!: messages_addMessage)

lemma messages_settle:
  "\<exists>m. messages (sendMessage_settle r w) = messages w @ [m] \<and> \<not> is_user m"
proof (cases "sendMessage_try r w")
  case (Inl e)
  then show ?thesis
    by (simp add: sendMessage_settle_def sendMessage_finally_eq sendMessage_catch_eq)
next
  case (Inr w1)
  with messages_try [OF Inr] show ?thesis
    by (simp add: sendMessage_settle_def sendMessage_finally_eq)
qed

lemma requests_settle:
  "requests (sendMessage_settle r w) =
     (case sendMessage_try r w of Inl e \<Rightarrow> requests w | Inr w1 \<Rightarrow> requests w1)"
  by (simp add: sendMessage_settle_def sendMessage_finally_eq sendMessage_catch_eq
      split: sum.splits)

subsection \<open>One send of the widget, and a conversation\<close>

lemma messages_sendMessage:
  assumes "admitted w"
  shows "\<exists>a. messages (sendMessage r w) =
           messages w
           @ [\<lparr>is_user = True, content = trim (input_value w), sources_html = NoSources\<rparr>, a]
         \<and> \<not> is_user a"
proof (cases "js_to_string (apiBase w)")
  case (Inl e)
  with assms show ?thesis
    by (simp add: sendMessage_def awaiting_def messages_begin)
next
  case (Inr base)
  with assms have "awaiting w" by (simp add: awaiting_def)
  moreover obtain a where
    "messages (sendMessage_settle r (sendMessage_begin w)) = messages (sendMessage_begin w) @ [a]"
    "\<not> is_user a"
    using messages_settle by blast
  ultimately show ?thesis
    using assms Inr by (simp add: sendMessage_def messages_begin)
qed

lemma alternating_sends:
  assumes "\<not> isLoading w" and "\<forall>(s, r) \<in> set xs. trim s \<noteq> []"
  shows "\<exists>ms. messages (sends xs w) = messages w @ ms
           \<and> length ms = 2 * length xs \<and> alternating ms"
  using assms
proof (induction xs arbitrary: w)
  case Nil
  then show ?case by simp
next
  case (Cons x xs)
  obtain s r where x: "x = (s, r)" by (cases x)
  let ?w = "step (Input s) w"
  have adm: "admitted ?w"
    using Cons.prems x by (simp add: admitted_def updateSendButton_def)
  have inp: "messages ?w = messages w"
    by (simp add: updateSendButton_def)
  obtain a where one:
    "messages (sendMessage r ?w) = messages w
       @ [\<lparr>is_user = True, content = trim (input_value ?w), sources_html = NoSources\<rparr>, a]"
    "\<not> is_user a"
    using messages_sendMessage [OF adm, of r] inp by auto
  have "\<not> isLoading (sendMessage r ?w)"
    using isLoading_sendMessage [OF adm] by simp
  moreover have "\<forall>(s, r) \<in> set xs. trim s \<noteq> []"
    using Cons.prems by simp
  ultimately obtain ms where rest:
    "messages (sends xs (sendMessage r ?w)) = messages (sendMessage r ?w) @ ms"
    "length ms = 2 * length xs" "alternating ms"
    using Cons.IH by blast
  let ?u = "\<lparr>is_user = True, content = trim (input_value ?w), sources_html = NoSources\<rparr>"
  have "messages (sends (x # xs) w) = messages w @ (?u # a # ms)"
    using x one rest by simp
  moreover have "length (?u # a # ms) = 2 * length (x # xs)"
    using rest by simp
  moreover have "alternating (?u # a # ms)"
    using one rest by simp
  ultimately show ?case by blast
qed

subsection \<open>Sources\<close>

lemma map_sources_length: "map_sources xs = Inr items \<Longrightarrow> length items = length xs"
  by (induction xs arbitrary: items) (auto split: sum.splits)

lemma map_sources_nth:
  "map_sources xs = Inr items \<Longrightarrow> i < length xs \<Longrightarrow> render_source (xs ! i) = Inr (items ! i)"
proof (induction xs arbitrary: items i)
  case Nil
  then show ?case by simp
next
  case (Cons x xs)
  then show ?case
    by (cases i) (auto split: sum.splits)
qed

lemma map_sources_total:
  "(\<forall>x \<in> set xs. \<exists>i. render_source x = Inr i) \<Longrightarrow> \<exists>items. map_sources xs = Inr items"
  by (induction xs) (auto split: sum.splits)

lemma createSourcesHTML_array:
  "createSourcesHTML (JArr xs) =
     (if xs = [] then Inr NoSources
      else case map_sources (take 3 xs) of
             Inl e \<Rightarrow> Inl e
           | Inr items \<Rightarrow> Inr (SourcesBlock items))"
  by (simp add: createSourcesHTML_def)

subsection \<open>The embed widget\<close>







lemmas embed_eval =
  embed_sendMessage_def embed_sendMessage_begin_def embed_sendMessage_settle_def
  embed_admitted_def embed_updateSendButton_def embed_addMessage_def embed_removeLast_def
  embed_try_def embed_catch_def embed_finally_def embed_chat_request_def new_embed_def
  trim_def is_space_def ok_def Let_def

subsection \<open>The store of the widget only grows\<close>



lemma health_try_ok:
  "(\<exists>u. health_try r = Inr u) =
     (\<exists>status data. r = Response status (Json data) \<and> 200 \<le> status \<and> status \<le> 299
        \<and> get_field ''status'' data = Inr (JStr ''healthy''))"
  by (auto simp: health_try_def ok_def
      split: fetch_result.splits body.splits sum.splits if_splits)

section \<open>The claims\<close>

text \<open>
  C1. While \<open>isLoading\<close> is true, or when the text in the input field is empty after
  trimming, \<open>sendMessage\<close> does nothing: the widget is left exactly as it was, so no
  user message is appended, no request is issued and the number of stored messages is
  unchanged.
\<close>

theorem sendMessage_noop:
  assumes "isLoading w \<or> trim (input_value w) = []"
  shows "sendMessage_begin w = w \<and> sendMessage r w = w
    \<and> messages (sendMessage r w) = messages w
    \<and> length (messages (sendMessage r w)) = length (messages w)
    \<and> requests (sendMessage r w) = requests w"
proof -
  have b: "sendMessage_begin w = w"
    using assms by (auto simp: sendMessage_begin_def Let_def)
  have "\<not> awaiting w"
    using assms by (auto simp: awaiting_def admitted_def)
  then have "sendMessage r w = w"
    using b by (simp add: sendMessage_def)
  with b show ?thesis by simp
qed

theorem sendMessage_noop_witness:
  "sendMessage (Response 200 (Json (JObj [(''response'', JStr ''x'')])))
     ((createWidget (JStr ''http://api'') True ''session_1_abc'')
        \<lparr>input_value := ''  '', isLoading := True\<rparr>)
   = (createWidget (JStr ''http://api'') True ''session_1_abc'')
        \<lparr>input_value := ''  '', isLoading := True\<rparr>"
  using sendMessage_noop [of "(createWidget (JStr ''http://api'') True ''session_1_abc'')
        \<lparr>input_value := ''  '', isLoading := True\<rparr>"]
  by simp

text \<open>
  C2. Once a chat request has settled, whatever the outcome (a response of any status, a
  body that does not parse, a rejected \<open>fetch\<close>), \<open>isLoading\<close> is false; the same
  holds for a whole admitted send. The next send with non-blank text is then admitted and
  stores the user's message.
\<close>

theorem loading_released:
  "isLoading (sendMessage_settle r w) = False
   \<and> (admitted w \<longrightarrow> isLoading (sendMessage r w) = False)
   \<and> (trim s \<noteq> [] \<longrightarrow>
        admitted (step (Input s) (sendMessage_settle r w))
        \<and> prefix (messages (sendMessage_settle r w)
              @ [\<lparr>is_user = True, content = trim s, sources_html = NoSources\<rparr>])
            (messages (sendMessage_begin (step (Input s) (sendMessage_settle r w)))))"
proof (intro conjI impI)
  show "isLoading (sendMessage_settle r w) = False" by (rule isLoading_settle)
next
  assume "admitted w" then show "isLoading (sendMessage r w) = False"
    by (rule isLoading_sendMessage)
next
  assume s: "trim s \<noteq> []"
  let ?w = "step (Input s) (sendMessage_settle r w)"
  show a: "admitted ?w"
    using s by (simp add: admitted_def updateSendButton_def isLoading_settle)
  have "messages ?w = messages (sendMessage_settle r w)" "input_value ?w = s"
    by (simp_all add: updateSendButton_def)
  with a show "prefix (messages (sendMessage_settle r w)
              @ [\<lparr>is_user = True, content = trim s, sources_html = NoSources\<rparr>])
            (messages (sendMessage_begin ?w))"
    by (simp add: messages_begin)
qed

theorem loading_released_witness:
  "isLoading (sendMessage (FetchRejected ''Failed to fetch'')
      (step (Input ''PAN requirements'')
         (createWidget (JStr ''http://api'') True ''session_1_abc''))) = False
   \<and> admitted (step (Input ''What is GST?'')
        (sendMessage_settle (FetchRejected ''Failed to fetch'')
           (sendMessage_begin (step (Input ''PAN requirements'')
              (createWidget (JStr ''http://api'') True ''session_1_abc'')))))"
proof -
  have a: "admitted (step (Input ''PAN requirements'')
             (createWidget (JStr ''http://api'') True ''session_1_abc''))"
    by (simp add: admitted_def updateSendButton_def createWidget_def trim_def is_space_def)
  have t: "trim ''What is GST?'' \<noteq> []"
    by (simp add: trim_def is_space_def)
  show ?thesis
    using a t
      loading_released [of "FetchRejected ''Failed to fetch''"
        "step (Input ''PAN requirements'')
           (createWidget (JStr ''http://api'') True ''session_1_abc'')"
        "''What is GST?''"]
      loading_released [of "FetchRejected ''Failed to fetch''"
        "sendMessage_begin (step (Input ''PAN requirements'')
           (createWidget (JStr ''http://api'') True ''session_1_abc''))"
        "''What is GST?''"]
    by blast
qed

text \<open>
  The widget of ca-chatbot-widget.js on a 2xx response with the body \<open>null\<close>: the
  throw on \<open>data.response\<close> comes before anything is appended, and the \<open>catch\<close>
  clause only appends, so the user's message stays.
\<close>

lemma widget_null_body_keeps_user_message:
  "messages (sendMessage (Response 200 (Json JNull))
      (step (Input ''PAN requirements'')
         (createWidget (JStr ''http://api'') True ''session_1_abc'')))
    = [greeting,
       \<lparr>is_user = True, content = ''PAN requirements'', sources_html = NoSources\<rparr>,
       \<lparr>is_user = False,
        content = offline_notice
          (TypeError (''Cannot read properties of null (reading '' @ quoted ''response'' @ '')'')),
        sources_html = NoSources\<rparr>]"
  by (simp add: sendMessage_def awaiting_def admitted_def updateSendButton_def createWidget_def
      trim_def is_space_def sendMessage_begin_def addMessage_def showTyping_def chat_request_def
      sendMessage_settle_def sendMessage_try_def ok_def sendMessage_finally_eq
      sendMessage_catch_eq Let_def)

text \<open>
  C3. The claim: N sends with non-blank text, each settled before the next, leave the
  user's message and then one assistant message per send, in that order. The widget of
  ca-chatbot-widget.js does so (\<open>alternating_sends\<close> above). The embed widget does not
  when a 2xx response has the body \<open>null\<close>: its \<open>try\<close> removes the \<open>Thinking...\<close>
  bubble and then throws on \<open>data.response\<close>, and its \<open>catch\<close> clause removes the
  last child once more, which by now is the user's message. After the send below the
  container holds the greeting and the offline notice; the user's message is gone.
\<close>

theorem embed_null_body_drops_user_message:
  "embed_messages (embed_sendMessage (Response 200 (Json JNull))
      (embed_step (EInput ''PAN requirements'') (new_embed 42 ''0.4fzyo82mvyr'')))
    = [embed_greeting, \<lparr>from_user = False, bubble_text = embed_offline_text\<rparr>]"
  by (simp add: embed_eval)

text \<open>
  C4, as stated, fails: a 2xx response whose body has no \<open>response\<close> field is not
  handled like a failed request. The missing field is printed, so the assistant message
  reads \<open>undefined\<close>, where a 500 response with the same body gives the error notice.
\<close>

theorem missing_response_counterexample:
  "messages (sendMessage_settle (Response 200 (Json (JObj [(''sources'', JArr [])])))
      (createWidget (JStr ''http://api'') True ''session_1_abc''))
    = [greeting, \<lparr>is_user = False, content = ''undefined'', sources_html = NoSources\<rparr>]
   \<and> \<not> is_failure_notice ''undefined''
   \<and> messages (sendMessage_settle (Response 500 (Json (JObj [(''sources'', JArr [])])))
      (createWidget (JStr ''http://api'') True ''session_1_abc''))
    = [greeting, \<lparr>is_user = False, content = ''Sorry, I encountered an error: Unknown error'',
         sources_html = NoSources\<rparr>]"
  by (simp add: sendMessage_settle_def sendMessage_try_def ok_def addMessage_def
      createSourcesHTML_def checkAPIHealth_begin_def sendMessage_finally_eq createWidget_def
      is_failure_notice_def js_or_def error_notice_def)

text \<open>
  C4, amended. For a 2xx response whose parsed body is not \<open>null\<close> and has no
  \<open>response\<close> field, the widget appends exactly one assistant message. Its text is the
  missing field as printed, \<open>undefined\<close>, with the Sources block of the body's sources;
  only when those sources cannot be rendered is it the offline notice.
\<close>

theorem missing_response_rendered:
  assumes "ok status" and "get_field ''response'' body_data = Inr JUndefined"
    and "get_field ''sources'' body_data = Inr srcs"
  shows "messages (sendMessage_settle (Response status (Json body_data)) w) =
     messages w @
       [case (if truthy srcs then createSourcesHTML srcs else Inr NoSources) of
          Inr blk \<Rightarrow> \<lparr>is_user = False, content = ''undefined'', sources_html = blk\<rparr>
        | Inl e \<Rightarrow> \<lparr>is_user = False, content = offline_notice e, sources_html = NoSources\<rparr>]"
  using assms
  by (simp add: sendMessage_settle_def sendMessage_try_def addMessage_def messages_health_begin
      sendMessage_finally_eq sendMessage_catch_eq split: sum.splits)

theorem missing_response_rendered_witness:
  "messages (sendMessage_settle
       (Response 200 (Json (JObj [(''web_search_used'', JBool False)])))
       (createWidget (JStr ''http://api'') True ''session_1_abc''))
    = [greeting, \<lparr>is_user = False, content = ''undefined'', sources_html = NoSources\<rparr>]"
proof -
  have "ok 200" by (simp add: ok_def)
  moreover have "get_field ''response'' (JObj [(''web_search_used'', JBool False)]) = Inr JUndefined"
    by simp
  moreover have "get_field ''sources'' (JObj [(''web_search_used'', JBool False)]) = Inr JUndefined"
    by simp
  ultimately show ?thesis
    using missing_response_rendered [of 200 "JObj [(''web_search_used'', JBool False)]" JUndefined
        "createWidget (JStr ''http://api'') True ''session_1_abc''"]
    by (simp add: createWidget_def)
qed

text \<open>
  C5, as stated, fails: after an exchange that ends with a non-2xx status no health probe
  is issued. The widget below has issued the probe of its construction and the chat
  request, and nothing else.
\<close>

theorem probe_after_failure_counterexample:
  "\<exists>w. new_widget (JObj [(''apiBase'', JStr ''http://api'')]) 42 ''0.4fzyo82mvyr'' = Inr w
     \<and> requests w = [HealthGet ''http://api/health'']
     \<and> requests (sendMessage (Response 500 (Json (JObj [(''detail'', JStr ''Internal error'')])))
          (step (Input ''What is GST?'') w))
       = [HealthGet ''http://api/health'',
          ChatPost ''http://api/api/chat''
            \<lparr>message = ''What is GST?'', web_search_enabled = True,
             session_id = ''session_42_4fzyo82mv''\<rparr>]"
  by (simp add: new_widget_def checkAPIHealth_begin_def generateSessionId_def digit_char_def
      sendMessage_def awaiting_def admitted_def updateSendButton_def createWidget_def
      trim_def is_space_def sendMessage_begin_def addMessage_def showTyping_def chat_request_def
      sendMessage_settle_def sendMessage_try_def ok_def sendMessage_finally_eq js_or_def Let_def)

text \<open>
  C5, amended. A health probe is issued once at construction, and again after each chat
  exchange that succeeds (a 2xx status, a parsed body, the assistant message rendered).
  An exchange that ends with a non-2xx status, an unparsable body or a rejected \<open>fetch\<close>
  issues no request at all.
\<close>

theorem probe_after_success_only:
  "(ok status \<and> get_field ''response'' body_data = Inr resp
      \<and> get_field ''sources'' body_data = Inr srcs
      \<and> (\<exists>w1. addMessage resp False srcs w = Inr w1) \<and> js_to_string (apiBase w) = Inr base
     \<longrightarrow> requests (sendMessage_settle (Response status (Json body_data)) w)
           = requests w @ [HealthGet (base @ ''/health'')])
   \<and> (\<not> ok status \<longrightarrow> requests (sendMessage_settle (Response status b) w) = requests w)
   \<and> requests (sendMessage_settle (Response status (Unparsable m)) w) = requests w
   \<and> requests (sendMessage_settle (FetchRejected m) w) = requests w
   \<and> (new_widget options now rnd = Inr w2 \<and> js_to_string (apiBase w2) = Inr base2
     \<longrightarrow> requests w2 = [HealthGet (base2 @ ''/health'')])"
proof (intro conjI impI)
  assume a: "ok status \<and> get_field ''response'' body_data = Inr resp
      \<and> get_field ''sources'' body_data = Inr srcs
      \<and> (\<exists>w1. addMessage resp False srcs w = Inr w1) \<and> js_to_string (apiBase w) = Inr base"
  then obtain w1 where w1: "addMessage resp False srcs w = Inr w1" by blast
  with a have "sendMessage_try (Response status (Json body_data)) w
                 = Inr (checkAPIHealth_begin w1)"
    by (simp add: sendMessage_try_def)
  moreover from w1 frame_addMessage have "requests w1 = requests w" "apiBase w1 = apiBase w"
    by blast+
  ultimately show "requests (sendMessage_settle (Response status (Json body_data)) w)
           = requests w @ [HealthGet (base @ ''/health'')]"
    using a by (simp add: requests_settle requests_health_begin)
next
  assume "\<not> ok status"
  then show "requests (sendMessage_settle (Response status b) w) = requests w"
    by (auto simp: requests_settle sendMessage_try_def dest: frame_addMessage
        split: sum.splits body.splits)
next
  show "requests (sendMessage_settle (Response status (Unparsable m)) w) = requests w"
    by (simp add: requests_settle sendMessage_try_def)
next
  show "requests (sendMessage_settle (FetchRejected m) w) = requests w"
    by (simp add: requests_settle sendMessage_try_def)
next
  assume "new_widget options now rnd = Inr w2 \<and> js_to_string (apiBase w2) = Inr base2"
  then show "requests w2 = [HealthGet (base2 @ ''/health'')]"
    by (auto simp: new_widget_def Let_def checkAPIHealth_begin_def set_offline_def
        createWidget_def split: sum.splits if_splits)
qed

theorem probe_after_success_only_witness:
  "requests (sendMessage_settle
       (Response 200 (Json (JObj [(''response'', JStr ''GST is...''), (''sources'', JArr [])])))
       (createWidget (JStr ''http://api'') True ''session_1_abc''))
     = [HealthGet ''http://api/health'']
   \<and> requests (sendMessage_settle (Response 503 (Json (JObj [])))
       (createWidget (JStr ''http://api'') True ''session_1_abc'')) = []"
proof -
  let ?d = "JObj [(''response'', JStr ''GST is...''), (''sources'', JArr [])]"
  let ?w = "createWidget (JStr ''http://api'') True ''session_1_abc''"
  have "ok 200" "\<not> ok 503" by (simp_all add: ok_def)
  moreover have "get_field ''response'' ?d = Inr (JStr ''GST is...'')"
    "get_field ''sources'' ?d = Inr (JArr [])"
    by simp_all
  moreover have "\<exists>w1. addMessage (JStr ''GST is...'') False (JArr []) ?w = Inr w1"
    by (simp add: addMessage_def createSourcesHTML_def)
  moreover have "js_to_string (apiBase ?w) = Inr ''http://api''" "requests ?w = []"
    by (simp_all add: createWidget_def)
  ultimately show ?thesis
    using probe_after_success_only [of 200 ?d "JStr ''GST is...''" "JArr []" ?w "''http://api''"]
      probe_after_success_only [of 503 _ _ _ ?w _ "Json (JObj [])"]
    by simp
qed

text \<open>
  C6. When a health probe settles, the connection status becomes Online exactly when the
  response has a 2xx status and a parsed body whose \<open>status\<close> field is the string
  \<open>healthy\<close>; in every other case (another status code, a body that does not parse or
  has another \<open>status\<close>, a rejected \<open>fetch\<close>) it becomes Offline. Neither issuing the
  probe nor its completion changes the stored messages.
\<close>

theorem health_status:
  "((connection_text (checkAPIHealth_settle r w) = ''Online''
      \<and> connection_class (checkAPIHealth_settle r w) = ''ca-status-online'')
     = (\<exists>status data. r = Response status (Json data) \<and> 200 \<le> status \<and> status \<le> 299
          \<and> get_field ''status'' data = Inr (JStr ''healthy'')))
   \<and> ((connection_text (checkAPIHealth_settle r w) = ''Offline''
      \<and> connection_class (checkAPIHealth_settle r w) = ''ca-status-offline'')
     = (\<not> (\<exists>status data. r = Response status (Json data) \<and> 200 \<le> status \<and> status \<le> 299
          \<and> get_field ''status'' data = Inr (JStr ''healthy''))))
   \<and> messages (checkAPIHealth_settle r w) = messages w
   \<and> messages (checkAPIHealth_begin w) = messages w"
proof -
  let ?H = "\<exists>status data. r = Response status (Json data) \<and> 200 \<le> status \<and> status \<le> 299
          \<and> get_field ''status'' data = Inr (JStr ''healthy'')"
  show ?thesis
  proof (cases "health_try r")
    case (Inl e)
    with health_try_ok [of r] have "\<not> ?H" by auto
    with Inl show ?thesis
      by (simp add: checkAPIHealth_settle_def set_offline_def messages_health_begin)
  next
    case (Inr u)
    with health_try_ok [of r] have "?H" by auto
    with Inr show ?thesis
      by (simp add: checkAPIHealth_settle_def set_online_def messages_health_begin)
  qed
qed

theorem health_status_witness:
  "connection_text (checkAPIHealth_settle (Response 200 (Json (JObj [(''status'', JStr ''healthy'')])))
      (createWidget (JStr ''http://api'') True ''session_1_abc'')) = ''Online''
   \<and> connection_text (checkAPIHealth_settle (Response 503 (Json (JObj [(''status'', JStr ''healthy'')])))
      (createWidget (JStr ''http://api'') True ''session_1_abc'')) = ''Offline''
   \<and> messages (checkAPIHealth_settle (Response 503 (Json (JObj [(''status'', JStr ''healthy'')])))
      (createWidget (JStr ''http://api'') True ''session_1_abc'')) = [greeting]"
  using health_status [of "Response 200 (Json (JObj [(''status'', JStr ''healthy'')]))"
      "createWidget (JStr ''http://api'') True ''session_1_abc''"]
    health_status [of "Response 503 (Json (JObj [(''status'', JStr ''healthy'')]))"
      "createWidget (JStr ''http://api'') True ''session_1_abc''"]
  by (simp add: createWidget_def)

text \<open>
  C7. Of an array of sources of any length, \<open>createSourcesHTML\<close> renders the first
  three and nothing else: the result is that of the array cut to three elements, a
  rendered block has \<open>min 3 n\<close> entries, entry \<open>i\<close> is the rendering of source \<open>i\<close>,
  and a non-empty array whose first three sources render gives a block, however many
  follow. The block is what \<open>addMessage\<close> stores with an assistant message.
\<close>

theorem sources_truncated:
  "createSourcesHTML (JArr xs) = createSourcesHTML (JArr (take 3 xs))
   \<and> (\<forall>items. createSourcesHTML (JArr xs) = Inr (SourcesBlock items) \<longrightarrow>
         length items \<le> 3 \<and> length items = min 3 (length xs)
         \<and> (\<forall>i < length items. render_source (xs ! i) = Inr (items ! i)))
   \<and> (xs \<noteq> [] \<and> (\<forall>x \<in> set (take 3 xs). \<exists>i. render_source x = Inr i) \<longrightarrow>
         (\<exists>items. createSourcesHTML (JArr xs) = Inr (SourcesBlock items)))
   \<and> (\<forall>w1. addMessage c False (JArr xs) w = Inr w1 \<longrightarrow>
         createSourcesHTML (JArr xs) = Inr (sources_html (last (messages w1))))"
proof -
  have one: "createSourcesHTML (JArr xs) = createSourcesHTML (JArr (take 3 xs))"
    by (cases xs) (simp_all add: createSourcesHTML_array)
  have two: "length items \<le> 3 \<and> length items = min 3 (length xs)
         \<and> (\<forall>i < length items. render_source (xs ! i) = Inr (items ! i))"
    if a: "createSourcesHTML (JArr xs) = Inr (SourcesBlock items)" for items
  proof -
    from a have m: "map_sources (take 3 xs) = Inr items"
      by (auto simp: createSourcesHTML_array split: if_splits sum.splits)
    have len: "length items = min 3 (length xs)"
      using map_sources_length [OF m] by (simp add: min.commute)
    have "render_source (xs ! i) = Inr (items ! i)" if "i < length items" for i
    proof -
      from that len have i: "i < length (take 3 xs)" by simp
      from map_sources_nth [OF m i] i show ?thesis by simp
    qed
    with len show ?thesis by simp
  qed
  have three: "\<exists>items. createSourcesHTML (JArr xs) = Inr (SourcesBlock items)"
    if a: "xs \<noteq> [] \<and> (\<forall>x \<in> set (take 3 xs). \<exists>i. render_source x = Inr i)"
  proof -
    from a obtain items where "map_sources (take 3 xs) = Inr items"
      using map_sources_total by blast
    with a show ?thesis by (simp add: createSourcesHTML_array)
  qed
  have four: "createSourcesHTML (JArr xs) = Inr (sources_html (last (messages w1)))"
    if "addMessage c False (JArr xs) w = Inr w1" for w1
    using that by (auto simp: addMessage_def split: sum.splits)
  from one two three four show ?thesis by blast
qed

theorem sources_truncated_witness:
  "createSourcesHTML (JArr [JObj [(''source'', JStr ''a'')], JObj [(''source'', JStr ''b'')],
        JObj [(''type'', JStr ''web''), (''url'', JStr ''http://c''), (''title'', JStr ''c'')],
        JObj [(''source'', JStr ''d'')], JNull])
     = Inr (SourcesBlock [SourceLabel ''a'', SourceLabel ''b'', SourceLink ''http://c'' ''c''])
   \<and> length [SourceLabel ''a'', SourceLabel ''b'', SourceLink ''http://c'' ''c''] \<le> 3"
proof -
  have e: "createSourcesHTML (JArr [JObj [(''source'', JStr ''a'')], JObj [(''source'', JStr ''b'')],
        JObj [(''type'', JStr ''web''), (''url'', JStr ''http://c''), (''title'', JStr ''c'')],
        JObj [(''source'', JStr ''d'')], JNull])
     = Inr (SourcesBlock [SourceLabel ''a'', SourceLabel ''b'', SourceLink ''http://c'' ''c''])"
    by (simp add: createSourcesHTML_def render_source_def source_label_def source_link_def
        js_or_def)
  with sources_truncated [of "[JObj [(''source'', JStr ''a'')], JObj [(''source'', JStr ''b'')],
        JObj [(''type'', JStr ''web''), (''url'', JStr ''http://c''), (''title'', JStr ''c'')],
        JObj [(''source'', JStr ''d'')], JNull]"]
  show ?thesis by blast
qed




text \<open>
  C9, as stated, fails: a source of type \<open>web\<close> whose \<open>url\<close> field is present but
  empty is rendered as a label, not as a link.
\<close>

theorem url_present_counterexample:
  "map_of [(''type'', JStr ''web''), (''url'', JStr []), (''title'', JStr ''GST portal''),
           (''source'', JStr ''gst.pdf'')] ''url'' \<noteq> None
   \<and> render_source (JObj [(''type'', JStr ''web''), (''url'', JStr []),
         (''title'', JStr ''GST portal''), (''source'', JStr ''gst.pdf'')])
       = Inr (SourceLabel ''gst.pdf'')"
  by (simp add: render_source_def source_label_def js_or_def)

text \<open>
  C9, amended. A rendered source is a link exactly when its \<open>type\<close> is the string
  \<open>web\<close> and its \<open>url\<close> is truthy (present, and not empty, \<open>null\<close>, 0 or
  \<open>false\<close>); the link has the url as target and the title as text. Every other source
  is a label: its \<open>source\<close> field as printed when that is truthy, and the text
  \<open>Document\<close> when the field is absent or falsy.
\<close>

theorem source_rendering:
  assumes "render_source (JObj kvs) = Inr item"
  shows "(is_link item =
           (map_of kvs ''type'' = Some (JStr ''web'')
            \<and> (\<exists>u. map_of kvs ''url'' = Some u \<and> truthy u)))
    \<and> (is_link item \<longrightarrow>
          (\<exists>u ti href txt. map_of kvs ''url'' = Some u \<and> js_to_string u = Inr href
             \<and> get_field ''title'' (JObj kvs) = Inr ti \<and> js_to_string ti = Inr txt
             \<and> item = SourceLink href txt))
    \<and> (\<not> is_link item \<longrightarrow>
          (\<exists>label. item = SourceLabel label
             \<and> (case map_of kvs ''source'' of
                  None \<Rightarrow> label = ''Document''
                | Some s \<Rightarrow>
                    if truthy s then js_to_string s = Inr label else label = ''Document'')))"
  using assms
  by (auto simp: render_source_def source_label_def source_link_def js_or_def is_link_def
      split: sum.splits option.splits if_splits)

theorem source_rendering_witness:
  "render_source (JObj [(''type'', JStr ''web''), (''url'', JStr ''https://gst.gov.in''),
       (''title'', JStr ''GST portal'')])
     = Inr (SourceLink ''https://gst.gov.in'' ''GST portal'')
   \<and> is_link (SourceLink ''https://gst.gov.in'' ''GST portal'')
   \<and> render_source (JObj [(''type'', JStr ''web''), (''title'', JStr ''GST portal'')])
     = Inr (SourceLabel ''Document'')
   \<and> \<not> is_link (SourceLabel ''Document'')"
proof -
  have a: "render_source (JObj [(''type'', JStr ''web''), (''url'', JStr ''https://gst.gov.in''),
       (''title'', JStr ''GST portal'')])
     = Inr (SourceLink ''https://gst.gov.in'' ''GST portal'')"
    by (simp add: render_source_def source_link_def)
  have b: "render_source (JObj [(''type'', JStr ''web''), (''title'', JStr ''GST portal'')])
     = Inr (SourceLabel ''Document'')"
    by (simp add: render_source_def source_label_def js_or_def)
  from a b source_rendering [OF a] source_rendering [OF b] show ?thesis
    by simp
qed

text \<open>
  C10. For every options object the constructor returns a widget whose
  \<open>webSearchEnabled\<close> is true unless the option of that name is the boolean \<open>false\<close>:
  it is true when the option is absent and for every other value, among them 0,
  \<open>null\<close>, \<open>undefined\<close>, the empty string and the string \<open>false\<close>.
\<close>

theorem constructor_webSearchEnabled:
  "\<exists>w. new_widget (JObj kvs) now rnd = Inr w
       \<and> webSearchEnabled w = (map_of kvs ''webSearchEnabled'' \<noteq> Some (JBool False))
       \<and> (\<forall>v. map_of kvs ''webSearchEnabled'' = Some v \<and>
               v \<in> set [JNum 0, JNull, JUndefined, JStr [], JStr ''false'', JBool True]
             \<longrightarrow> webSearchEnabled w)
       \<and> (map_of kvs ''webSearchEnabled'' = None \<longrightarrow> webSearchEnabled w)"
  by (auto simp: new_widget_def webSearchEnabled_health_begin createWidget_def
      split: option.splits)

theorem constructor_webSearchEnabled_witness:
  "\<exists>w. new_widget (JObj [(''webSearchEnabled'', JStr ''false'')]) 42 ''0.4fzyo82mvyr'' = Inr w
       \<and> webSearchEnabled w"
  using constructor_webSearchEnabled [of "[(''webSearchEnabled'', JStr ''false'')]" 42
      "''0.4fzyo82mvyr''"]
  by simp

end
